theory Spec2Isabelle
  imports Complex_Main "HOL-Library.AList"
begin

section \<open>The game client of \<open>game.js\<close>\<close>

text \<open>
  The class \<open>GameClient\<close> is embedded as a record of its fields together with the
  traces of what its handlers do to the outside world (commands sent over the socket,
  calls on the 2D context, image decodes started, console lines, suppressed default
  actions). Every method is a function from client state to client state.

  Modelling decisions:
  \<^item> A finite JavaScript number is a rational: every finite double is one, and
    arithmetic is taken exact. The viewport offsets and the arguments of the calls on
    the 2D context can also be \<open>NaN\<close>. The canvas extents are the unsigned integers of
    the DOM.
  \<^item> The own properties of a JavaScript object used as a dictionary are an association
    list in insertion order; \<open>delete obj[k]\<close> is \<open>AList.delete\<close>. The objects of a
    parsed message have pairwise different keys, and every key of the message is an own
    property of them, \<open>__proto__\<close> too. JavaScript enumerates keys that look like array
    indices first; the statements below do not depend on the order of enumeration.
  \<^item> The dictionaries are plain objects, so a lookup \<open>obj[k]\<close> that finds no own
    property goes on to the prototype: it finds the members of \<open>Object.prototype\<close>
    (\<open>object_prototype_names\<close>, all truthy), and \<open>obj[''__proto__'']\<close> is the prototype
    itself. An assignment \<open>obj[k] = v\<close> or \<open>Object.assign\<close> stores an own property,
    except under the key \<open>__proto__\<close> when that is not yet an own property: then the
    inherited setter makes \<open>v\<close> the prototype of \<open>obj\<close> and no property is stored
    (\<open>js_set\<close>). So such an object is its own properties together with the object that
    replaced its prototype, if any.
  \<^item> \<open>null\<close> and \<open>undefined\<close> are \<open>None\<close>; an object is truthy, so \<open>!v\<close> is \<open>v = None\<close>.
  \<^item> \<open>myPlayer\<close> refers to what the lookup at join time found: nothing, a player
    object, or a member of \<open>Object.prototype\<close>. No handler writes a field of a player
    object (the mapping is rebound, never the objects), so a reference to a player is
    the value of that object.
  \<^item> The calls on the 2D context are recorded, not interpreted: an exception that the
    browser raises in \<open>drawImage\<close> (for an image whose decoding failed) is not
    represented.
\<close>

subsection \<open>Data\<close>

text \<open>A number that can be \<open>NaN\<close>.\<close>

datatype number = Num rat | NaN

text \<open>
  An object used as a dictionary: its own properties, and the value that an assignment
  under \<open>__proto__\<close> has made its prototype (\<open>None\<close> while that is \<open>Object.prototype\<close>).
\<close>

type_synonym 'v js_object = "(string \<times> 'v) list \<times> 'v option"

record image =
  src :: string
  complete :: bool

record player =
  p_id :: string
  p_x :: rat
  p_y :: rat
  facing :: string
  animationFrame :: "nat option"
  username :: string
  p_avatar :: string

record avatar =
  a_name :: string
  frames :: "(string \<times> string list) list"
  loadedImages :: "image list js_object option"

datatype client_message =
  Join_game_request string
| Move string
| Stop

datatype server_message =
  Join_game bool string "(string \<times> player) list" "(string \<times> avatar) list" string
| Player_joined player avatar
| Players_moved "(string \<times> player) list"
| Player_left string
| Other_action string

datatype canvas_op =
  ClearRect number number number number
| DrawImage_sub image number number number number number number number number
| DrawImage_at image number number number number
| FillStyle string
| StrokeStyle string
| LineWidth rat
| Font string
| TextAlign string
| StrokeText string number number
| FillText string number number

text \<open>
  What \<open>myPlayer\<close> holds: \<open>null\<close> or \<open>undefined\<close>, a player object, or the member of
  \<open>Object.prototype\<close> of the given name (a truthy value that has no \<open>x\<close> and no \<open>y\<close>).
\<close>

datatype local_player = No_player | Player player | Not_a_player string

datatype console_line = Console_log string | Console_error string

text \<open>One started decode: the avatar's key, the direction, the frame index, the data.\<close>

type_synonym decode = "string \<times> string \<times> nat \<times> string"

record game_client =
  canvas_width :: nat
  canvas_height :: nat
  worldImage :: "image option"
  worldSize :: rat
  socket :: "string option"
  connected :: bool
  myPlayerId :: "string option"
  myPlayer :: local_player
  players :: "(string \<times> player) list"
  players_proto :: "player option"
  avatars :: "(string \<times> avatar) list"
  avatars_proto :: "avatar option"
  viewportX :: number
  viewportY :: number
  keysPressed :: "string list"
  currentDirection :: "string option"
  sent :: "client_message list"
  canvas_ops :: "canvas_op list"
  decodes :: "decode list"
  console :: "console_line list"
  prevented :: "string list"

datatype event =
  Resize nat nat
| WorldImageLoad
| WorldImageError
| SocketOpen
| SocketMessage server_message
| SocketMalformed
| SocketClose
| SocketError
| KeyDown string
| KeyUp string

subsection \<open>Plain objects as dictionaries\<close>

text \<open>The names of the members of \<open>Object.prototype\<close>; the value of each is truthy.\<close>

definition object_prototype_names :: "string list" where
  "object_prototype_names =
     [''constructor'', ''__defineGetter__'', ''__defineSetter__'', ''hasOwnProperty'',
      ''__lookupGetter__'', ''__lookupSetter__'', ''isPrototypeOf'',
      ''propertyIsEnumerable'', ''toString'', ''valueOf'', ''__proto__'',
      ''toLocaleString'']"

text \<open>
  \<open>obj[k] = v\<close>, for an object \<open>v\<close>. An own property \<open>k\<close> is overwritten in place and a
  new one is appended, but the key \<open>__proto__\<close>, when it is not an own property, reaches
  the setter inherited from \<open>Object.prototype\<close>: \<open>v\<close> becomes the prototype and no
  property is stored.
\<close>

definition js_set :: "string \<Rightarrow> 'v \<Rightarrow> 'v js_object \<Rightarrow> 'v js_object" where
  "js_set k v obj =
     (if k = ''__proto__'' \<and> k \<notin> fst ` set (fst obj)
      then (fst obj, Some v)
      else (AList.update k v (fst obj), snd obj))"

text \<open>
  \<open>obj[k]\<close>, as far as it finds a value of the kind the dictionary stores: an own
  property, or under \<open>__proto__\<close> the object that replaced the prototype. Every other
  lookup finds \<open>undefined\<close>, a member of \<open>Object.prototype\<close> or a property of the
  replaced prototype; \<open>drawPlayer\<close> tells why it returns for each of them.
\<close>

definition js_get :: "'v js_object \<Rightarrow> string \<Rightarrow> 'v option" where
  "js_get obj k =
     (case map_of (fst obj) k of
        Some v \<Rightarrow> Some v
      | None \<Rightarrow> if k = ''__proto__'' then snd obj else None)"

text \<open>
  Whether \<open>obj[k]\<close> is truthy, for an object whose own properties are truthy and whose
  prototype is \<open>Object.prototype\<close>.
\<close>

definition js_truthy_at :: "string list \<Rightarrow> string \<Rightarrow> bool" where
  "js_truthy_at own_keys k \<longleftrightarrow> k \<in> set own_keys \<or> k \<in> set object_prototype_names"

text \<open>Arithmetic and comparison with \<open>NaN\<close>: a comparison with \<open>NaN\<close> is false.\<close>

fun num_sub :: "number \<Rightarrow> number \<Rightarrow> number" where
  "num_sub (Num a) (Num b) = Num (a - b)"
| "num_sub a b = NaN"

fun num_less :: "number \<Rightarrow> number \<Rightarrow> bool" where
  "num_less (Num a) (Num b) \<longleftrightarrow> a < b"
| "num_less a b \<longleftrightarrow> False"

subsection \<open>Asset loading\<close>

definition new_Image :: "string \<Rightarrow> image" where
  "new_Image base64Data = \<lparr>src = base64Data, complete = False\<rparr>"

definition frame_decodes :: "string \<Rightarrow> string \<times> string list \<Rightarrow> decode list" where
  "frame_decodes k df =
     map (\<lambda>(i, base64Data). (k, fst df, i, base64Data)) (enumerate 0 (snd df))"

text \<open>The body of the \<open>forEach\<close> of \<open>loadAvatarImages\<close>, for the avatar stored under \<open>k\<close>.\<close>

definition loadAvatar :: "string \<Rightarrow> avatar \<Rightarrow> avatar \<times> decode list" where
  "loadAvatar k a =
     (case loadedImages a of
        Some li \<Rightarrow> (a, [])
      | None \<Rightarrow>
          (a\<lparr>loadedImages :=
               Some (fold (\<lambda>(direction, fs). js_set direction (map new_Image fs))
                      (frames a) ([], None))\<rparr>,
           concat (map (frame_decodes k) (frames a))))"

definition loadAvatarImages :: "game_client \<Rightarrow> game_client" where
  "loadAvatarImages s =
     s\<lparr>avatars := map (\<lambda>(k, a). (k, fst (loadAvatar k a))) (avatars s),
       decodes := decodes s @ concat (map (\<lambda>(k, a). snd (loadAvatar k a)) (avatars s))\<rparr>"

definition loadWorldMap :: "game_client \<Rightarrow> game_client" where
  "loadWorldMap s = s\<lparr>worldImage := Some \<lparr>src = ''world.jpg'', complete = False\<rparr>\<rparr>"

subsection \<open>Viewport\<close>

text \<open>
  When \<open>myPlayer\<close> is a member of \<open>Object.prototype\<close>, its \<open>x\<close> and \<open>y\<close> are
  \<open>undefined\<close>, the differences are \<open>NaN\<close>, and \<open>Math.min\<close> and \<open>Math.max\<close> return
  \<open>NaN\<close>.
\<close>

definition updateViewport :: "game_client \<Rightarrow> game_client" where
  "updateViewport s =
     (case myPlayer s of
        No_player \<Rightarrow> s
      | Player p \<Rightarrow>
          let vx = p_x p - of_nat (canvas_width s) / 2;
              vy = p_y p - of_nat (canvas_height s) / 2
          in s\<lparr>viewportX := Num (max 0 (min vx (worldSize s - of_nat (canvas_width s)))),
               viewportY := Num (max 0 (min vy (worldSize s - of_nat (canvas_height s))))\<rparr>
      | Not_a_player n \<Rightarrow> s\<lparr>viewportX := NaN, viewportY := NaN\<rparr>)"

subsection \<open>Rendering\<close>

text \<open>
  The lookup \<open>this.avatars[player.avatar]\<close> and the test of \<open>loadedImages\<close> go on only
  with an avatar object: an own property of \<open>avatars\<close>, or under the key \<open>__proto__\<close> the
  avatar that replaced the prototype. Whatever else the lookup finds makes the code
  return without drawing: \<open>undefined\<close>; a member of \<open>Object.prototype\<close>, which has no
  \<open>loadedImages\<close>; the name of the avatar that replaced the prototype, a string, which
  has none; its cached images, whose \<open>loadedImages\<close> can only be a list of images, and
  an element, the length or a method of such a list has nothing under a frame index. One
  path is not represented: the \<open>frames\<close> of an avatar that replaced the prototype, when
  they have a direction called \<open>loadedImages\<close>, for a player whose avatar is called
  \<open>frames\<close>; there the code goes on with strings in the place of images, and
  \<open>drawImage\<close> raises a \<open>TypeError\<close> when it is given a character.

  The lookup \<open>avatar.loadedImages[direction]\<close> and the test of
  \<open>avatarImages[frameIndex]\<close> go on only with a list of images: an own property, or
  under \<open>__proto__\<close> the list that replaced the prototype. Whatever else the lookup
  finds (a member of \<open>Object.prototype\<close>; an element, the length or a method of a list
  that replaced the prototype) has nothing under a frame index, and the code returns.
\<close>

definition drawPlayer :: "player \<Rightarrow> game_client \<Rightarrow> game_client" where
  "drawPlayer pl s =
     (case js_get (avatars s, avatars_proto s) (p_avatar pl) of
        None \<Rightarrow> s
      | Some av \<Rightarrow>
         (case loadedImages av of
            None \<Rightarrow> s
          | Some li \<Rightarrow>
             let screenX = num_sub (Num (p_x pl)) (viewportX s);
                 screenY = num_sub (Num (p_y pl)) (viewportY s)
             in if num_less screenX (Num (- 50)) \<or>
                   num_less (Num (of_nat (canvas_width s) + 50)) screenX \<or>
                   num_less screenY (Num (- 50)) \<or>
                   num_less (Num (of_nat (canvas_height s) + 50)) screenY
                then s
                else
                  let frameIndex = (case animationFrame pl of None \<Rightarrow> 0 | Some n \<Rightarrow> n)
                  in (case js_get li (facing pl) of
                        None \<Rightarrow> s
                      | Some avatarImages \<Rightarrow>
                          if frameIndex < length avatarImages
                          then
                            let avatarImg = avatarImages ! frameIndex;
                                avatarSize = 32;
                                drawX = num_sub screenX (Num (avatarSize / 2));
                                drawY = num_sub screenY (Num avatarSize);
                                textX = screenX;
                                textY = num_sub drawY (Num 5)
                            in s\<lparr>canvas_ops := canvas_ops s @
                                 [DrawImage_at avatarImg drawX drawY
                                    (Num avatarSize) (Num avatarSize),
                                  FillStyle ''white'', StrokeStyle ''black'', LineWidth 2,
                                  Font ''12px Arial'', TextAlign ''center'',
                                  StrokeText (username pl) textX textY,
                                  FillText (username pl) textX textY]\<rparr>
                          else s)))"

definition draw :: "game_client \<Rightarrow> game_client" where
  "draw s =
     (case worldImage s of
        None \<Rightarrow> s
      | Some img \<Rightarrow>
          let w = Num (of_nat (canvas_width s)); h = Num (of_nat (canvas_height s))
          in fold drawPlayer (map snd (players s))
               (s\<lparr>canvas_ops := canvas_ops s @
                    [ClearRect (Num 0) (Num 0) w h,
                     DrawImage_sub img (viewportX s) (viewportY s) w h
                       (Num 0) (Num 0) w h]\<rparr>))"

subsection \<open>The server-message reducer\<close>

text \<open>
  \<open>Object.assign(target, source)\<close>: the own properties of the source are assigned to
  the target one by one.
\<close>

definition object_assign :: "'v js_object \<Rightarrow> (string \<times> 'v) list \<Rightarrow> 'v js_object" where
  "object_assign target source = fold (\<lambda>(k, v). js_set k v) source target"

text \<open>
  \<open>this.players[this.myPlayerId]\<close>, on the mapping that the message brought: an own
  property, else a member of \<open>Object.prototype\<close>, else \<open>undefined\<close>.
\<close>

definition find_player :: "(string \<times> player) list \<Rightarrow> string \<Rightarrow> local_player" where
  "find_player ps playerId =
     (case map_of ps playerId of
        Some p \<Rightarrow> Player p
      | None \<Rightarrow>
          if playerId \<in> set object_prototype_names then Not_a_player playerId
          else No_player)"

definition handleServerMessage :: "game_client \<Rightarrow> server_message \<Rightarrow> game_client" where
  "handleServerMessage s0 message =
     (let s = s0\<lparr>console := console s0 @ [Console_log ''Received message:'']\<rparr>
      in case message of
           Join_game success playerId ps avs err \<Rightarrow>
             if success
             then draw (updateViewport (loadAvatarImages
                    (s\<lparr>myPlayerId := Some playerId,
                       players := ps, players_proto := None,
                       avatars := avs, avatars_proto := None,
                       myPlayer := find_player ps playerId\<rparr>)))
             else s\<lparr>console := console s @ [Console_error ''Failed to join game:'']\<rparr>
         | Player_joined pl av \<Rightarrow>
             let ps = js_set (p_id pl) pl (players s, players_proto s);
                 avs = js_set (a_name av) av (avatars s, avatars_proto s)
             in draw (loadAvatarImages
                  (s\<lparr>players := fst ps, players_proto := snd ps,
                     avatars := fst avs, avatars_proto := snd avs\<rparr>))
         | Players_moved moved \<Rightarrow>
             let ps = object_assign (players s, players_proto s) moved
             in draw (updateViewport (s\<lparr>players := fst ps, players_proto := snd ps\<rparr>))
         | Player_left playerId \<Rightarrow>
             draw (s\<lparr>players := AList.delete playerId (players s)\<rparr>)
         | Other_action a \<Rightarrow> s)"

subsection \<open>Keyboard input\<close>

definition movementKeys :: "string list" where
  "movementKeys = [''ArrowUp'', ''ArrowDown'', ''ArrowLeft'', ''ArrowRight'']"

definition sendMoveCommand :: "string \<Rightarrow> game_client \<Rightarrow> game_client" where
  "sendMoveCommand direction s =
     s\<lparr>sent := sent s @ [Move direction], currentDirection := Some direction\<rparr>"

definition sendStopCommand :: "game_client \<Rightarrow> game_client" where
  "sendStopCommand s = s\<lparr>sent := sent s @ [Stop], currentDirection := None\<rparr>"

definition key_direction :: "string \<Rightarrow> string option" where
  "key_direction key =
     (if key = ''ArrowUp'' then Some ''up''
      else if key = ''ArrowDown'' then Some ''down''
      else if key = ''ArrowLeft'' then Some ''left''
      else if key = ''ArrowRight'' then Some ''right''
      else None)"

text \<open>\<open>keysPressed[key] = true\<close>: a key already held keeps its place.\<close>

definition hold_key :: "string \<Rightarrow> string list \<Rightarrow> string list" where
  "hold_key key ks = (if key \<in> set ks then ks else ks @ [key])"

definition handleKeyDown :: "game_client \<Rightarrow> string \<Rightarrow> game_client" where
  "handleKeyDown s key =
     (if \<not> connected s \<or> socket s = None then s
      else case key_direction key of
             None \<Rightarrow> s
           | Some direction \<Rightarrow>
               sendMoveCommand direction
                 (s\<lparr>prevented := prevented s @ [key],
                    keysPressed := hold_key key (keysPressed s)\<rparr>))"

text \<open>
  \<open>keysPressed\<close> is a plain object whose own properties are all \<open>true\<close>, so the test
  \<open>this.keysPressed[key]\<close> succeeds for a held key and for the name of a member of
  \<open>Object.prototype\<close>; \<open>delete\<close> then removes an own property only.
\<close>

definition handleKeyUp :: "game_client \<Rightarrow> string \<Rightarrow> game_client" where
  "handleKeyUp s key =
     (if \<not> connected s \<or> socket s = None then s
      else if js_truthy_at (keysPressed s) key
      then
        let s1 = s\<lparr>keysPressed := removeAll key (keysPressed s)\<rparr>;
            hasMovementKeys = list_ex (\<lambda>k. k \<in> set movementKeys) (keysPressed s1)
        in if \<not> hasMovementKeys then sendStopCommand s1 else s1
      else s)"

subsection \<open>Construction and the event loop\<close>

definition joinGame :: "game_client \<Rightarrow> game_client" where
  "joinGame s = s\<lparr>sent := sent s @ [Join_game_request ''Sharan'']\<rparr>"

definition connectToServer :: "game_client \<Rightarrow> game_client" where
  "connectToServer s = s\<lparr>socket := Some ''wss://codepath-mmorg.onrender.com''\<rparr>"

definition setupCanvas :: "nat \<Rightarrow> nat \<Rightarrow> game_client \<Rightarrow> game_client" where
  "setupCanvas innerWidth innerHeight s =
     s\<lparr>canvas_width := innerWidth, canvas_height := innerHeight\<rparr>"

text \<open>
  The constructor, for a window of the given inner size: the field initialisers (the
  canvas element starts at the default 300 by 150 of a canvas and is resized at once by
  \<open>setupCanvas\<close>), then \<open>init()\<close>. Registering the listeners has no effect on the
  fields; their bodies are the cases of \<open>step\<close>.
\<close>

definition constructor :: "nat \<Rightarrow> nat \<Rightarrow> game_client" where
  "constructor innerWidth innerHeight =
     connectToServer (loadWorldMap (setupCanvas innerWidth innerHeight
       \<lparr>canvas_width = 300, canvas_height = 150, worldImage = None, worldSize = 2048,
        socket = None, connected = False, myPlayerId = None, myPlayer = No_player,
        players = [], players_proto = None, avatars = [], avatars_proto = None,
        viewportX = Num 0, viewportY = Num 0,
        keysPressed = [], currentDirection = None,
        sent = [], canvas_ops = [], decodes = [], console = [], prevented = []\<rparr>))"

definition step :: "event \<Rightarrow> game_client \<Rightarrow> game_client" where
  "step e s =
     (case e of
        Resize innerWidth innerHeight \<Rightarrow>
          draw (updateViewport (setupCanvas innerWidth innerHeight s))
      | WorldImageLoad \<Rightarrow>
          draw (s\<lparr>worldImage := map_option (\<lambda>img. img\<lparr>complete := True\<rparr>) (worldImage s)\<rparr>)
      | WorldImageError \<Rightarrow>
          s\<lparr>console := console s @ [Console_error ''Failed to load world map image'']\<rparr>
      | SocketOpen \<Rightarrow>
          joinGame (s\<lparr>console := console s @ [Console_log ''Connected to game server''],
                      connected := True\<rparr>)
      | SocketMessage message \<Rightarrow> handleServerMessage s message
      | SocketMalformed \<Rightarrow>
          s\<lparr>console := console s @ [Console_error ''Error parsing server message:'']\<rparr>
      | SocketClose \<Rightarrow>
          s\<lparr>console := console s @ [Console_log ''Disconnected from game server''],
            connected := False\<rparr>
      | SocketError \<Rightarrow>
          s\<lparr>console := console s @ [Console_error ''WebSocket error:'']\<rparr>
      | KeyDown key \<Rightarrow> handleKeyDown s key
      | KeyUp key \<Rightarrow> handleKeyUp s key)"

definition run :: "event list \<Rightarrow> game_client \<Rightarrow> game_client" where
  "run es s = fold step es s"

fun join_succeeds :: "event \<Rightarrow> bool" where
  "join_succeeds (SocketMessage (Join_game success playerId ps avs err)) = success"
| "join_succeeds e = False"

subsection \<open>Concrete clients\<close>

definition player_at :: "string \<Rightarrow> rat \<Rightarrow> rat \<Rightarrow> player" where
  "player_at i px py =
     \<lparr>p_id = i, p_x = px, p_y = py, facing = ''south'', animationFrame = None,
      username = i, p_avatar = ''knight''\<rparr>"

definition knight :: avatar where
  "knight =
     \<lparr>a_name = ''knight'',
      frames = [(''north'', [''n0'', ''n1'']), (''south'', [''s0''])],
      loadedImages = None\<rparr>"

text \<open>A client whose socket has opened.\<close>

definition opened :: game_client where
  "opened = step SocketOpen (constructor 800 600)"

text \<open>A client that holds the roster \<open>{A, B}\<close> and follows \<open>A\<close>.\<close>

definition roster :: game_client where
  "roster =
     opened\<lparr>myPlayerId := Some ''A'', myPlayer := Player (player_at ''A'' 100 100),
            players := [(''A'', player_at ''A'' 100 100), (''B'', player_at ''B'' 1500 900)],
            avatars := [(''knight'', knight)]\<rparr>"

text \<open>The images that \<open>loadAvatarImages\<close> caches for \<open>knight\<close>.\<close>

definition knight_images :: "image list js_object" where
  "knight_images =
     ([(''north'', [new_Image ''n0'', new_Image ''n1'']), (''south'', [new_Image ''s0''])],
      None)"

text \<open>
  A client whose socket has opened and that has received a successful \<open>join_game\<close>
  answer, while the world map has not finished loading (no \<open>WorldImageLoad\<close> yet).
\<close>

definition loading :: game_client where
  "loading =
     run [SocketOpen,
          SocketMessage (Join_game True ''A'' [(''A'', player_at ''A'' 100 100)]
            [(''knight'', knight)] [])]
       (constructor 800 600)"

text \<open>What one \<open>draw()\<close> of \<open>loading\<close> calls on the 2D context.\<close>

definition loading_ops :: "canvas_op list" where
  "loading_ops =
     [ClearRect (Num 0) (Num 0) (Num 800) (Num 600),
      DrawImage_sub \<lparr>src = ''world.jpg'', complete = False\<rparr>
        (Num 0) (Num 0) (Num 800) (Num 600) (Num 0) (Num 0) (Num 800) (Num 600),
      DrawImage_at \<lparr>src = ''s0'', complete = False\<rparr> (Num 84) (Num 68) (Num 32) (Num 32),
      FillStyle ''white'', StrokeStyle ''black'', LineWidth 2,
      Font ''12px Arial'', TextAlign ''center'', StrokeText ''A'' (Num 100) (Num 63),
      FillText ''A'' (Num 100) (Num 63)]"

text \<open>The decodes started between a state and a later one.\<close>

definition started :: "game_client \<Rightarrow> game_client \<Rightarrow> decode list" where
  "started s s' = drop (length (decodes s)) (decodes s')"

text \<open>Some events before any join: two resizes, the socket opening, a roster update.\<close>

definition early_events :: "event list" where
  "early_events =
     [Resize 1024 768, SocketOpen,
      SocketMessage (Players_moved [(''B'', player_at ''B'' 1500 900)]),
      SocketMessage (Join_game False [] [] [] ''full''),
      Resize 640 480]"


section \<open>Frame lemmas\<close>

lemma drawPlayer_only_ops: "drawPlayer pl s = s\<lparr>canvas_ops := canvas_ops (drawPlayer pl s)\<rparr>"
  by (simp add: drawPlayer_def Let_def split: option.splits)

lemma fold_drawPlayer_only_ops:
  "fold drawPlayer pls s = s\<lparr>canvas_ops := canvas_ops (fold drawPlayer pls s)\<rparr>"
proof (induction pls arbitrary: s)
  case Nil
  show ?case by simp
next
  case (Cons pl pls)
  have "fold drawPlayer (pl # pls) s = fold drawPlayer pls (drawPlayer pl s)" by simp
  also have "\<dots> = (drawPlayer pl s)\<lparr>canvas_ops := canvas_ops (fold drawPlayer pls (drawPlayer pl s))\<rparr>"
    by (rule Cons.IH)
  also have "\<dots> = (s\<lparr>canvas_ops := canvas_ops (drawPlayer pl s)\<rparr>)
                     \<lparr>canvas_ops := canvas_ops (fold drawPlayer pls (drawPlayer pl s))\<rparr>"
    using drawPlayer_only_ops [of pl s] by simp
  finally show ?case by simp
qed

lemma draw_only_ops: "draw s = s\<lparr>canvas_ops := canvas_ops (draw s)\<rparr>"
proof (cases "worldImage s")
  case None
  then show ?thesis by (simp add: draw_def)
next
  case (Some img)
  let ?w = "Num (of_nat (canvas_width s))" and ?h = "Num (of_nat (canvas_height s))"
  let ?s1 = "s\<lparr>canvas_ops := canvas_ops s @
      [ClearRect (Num 0) (Num 0) ?w ?h,
       DrawImage_sub img (viewportX s) (viewportY s) ?w ?h (Num 0) (Num 0) ?w ?h]\<rparr>"
  have d: "draw s = fold drawPlayer (map snd (players s)) ?s1"
    using Some by (simp add: draw_def Let_def)
  have "fold drawPlayer (map snd (players s)) ?s1 =
        ?s1\<lparr>canvas_ops := canvas_ops (fold drawPlayer (map snd (players s)) ?s1)\<rparr>"
    by (rule fold_drawPlayer_only_ops)
  then show ?thesis unfolding d by simp
qed

lemma draw_fields:
  "players (draw s) = players s" "avatars (draw s) = avatars s"
  "players_proto (draw s) = players_proto s" "avatars_proto (draw s) = avatars_proto s"
  "myPlayer (draw s) = myPlayer s" "myPlayerId (draw s) = myPlayerId s"
  "viewportX (draw s) = viewportX s" "viewportY (draw s) = viewportY s"
  "sent (draw s) = sent s" "decodes (draw s) = decodes s"
  "keysPressed (draw s) = keysPressed s"
  by (subst draw_only_ops, simp)+




section \<open>Lemmas on the asset loader\<close>

lemma loadAvatar_loaded: "loadedImages (fst (loadAvatar k a)) \<noteq> None"
  by (simp add: loadAvatar_def split: option.splits)

lemma loadAvatar_again:
  "loadAvatar k (fst (loadAvatar k a)) = (fst (loadAvatar k a), [])"
  by (simp add: loadAvatar_def split: option.splits)

lemma loadAvatar_skip: "loadedImages a \<noteq> None \<Longrightarrow> loadAvatar k a = (a, [])"
  by (auto simp: loadAvatar_def split: option.splits)

lemma loadAvatarImages_avatars_again:
  "map (\<lambda>(k, a). (k, fst (loadAvatar k a))) (map (\<lambda>(k, a). (k, fst (loadAvatar k a))) avs)
     = map (\<lambda>(k, a). (k, fst (loadAvatar k a))) avs"
  by (induction avs) (auto simp: loadAvatar_again)

lemma loadAvatarImages_decodes_again:
  "concat (map (\<lambda>(k, a). snd (loadAvatar k a)) (map (\<lambda>(k, a). (k, fst (loadAvatar k a))) avs)) = []"
  by (induction avs) (auto simp: loadAvatar_again)

lemma loadAvatarImages_twice: "loadAvatarImages (loadAvatarImages s) = loadAvatarImages s"
  by (simp add: loadAvatarImages_def loadAvatarImages_avatars_again loadAvatarImages_decodes_again
      del: map_map)

lemma count_enumerate:
  "count_list (map (\<lambda>(i, b). (k, d, i, b)) (enumerate n fs)) (k', d', j, c) =
     (if k = k' \<and> d = d' \<and> n \<le> j \<and> j < n + length fs \<and> fs ! (j - n) = c then 1 else 0)"
proof (induction fs arbitrary: n)
  case Nil
  show ?case by simp
next
  case (Cons f fs)
  show ?case
    using Cons.IH [of "Suc n"]
    by (auto simp: nth_Cons' Suc_diff_le)
qed

lemma count_frame_decodes:
  "count_list (frame_decodes k (d, fs)) (k', d', j, c) =
     (if k = k' \<and> d = d' \<and> j < length fs \<and> fs ! j = c then 1 else 0)"
  using count_enumerate [of k d 0 fs k' d' j c] by (simp add: frame_decodes_def)

lemma count_frames_other:
  "d \<notin> fst ` set fr \<Longrightarrow> count_list (concat (map (frame_decodes k) fr)) (k', d, j, c) = 0"
  by (induction fr) (auto simp: count_frame_decodes)

lemma count_frames:
  "distinct (map fst fr) \<Longrightarrow> (d, fs) \<in> set fr \<Longrightarrow> j < length fs \<Longrightarrow>
   count_list (concat (map (frame_decodes k) fr)) (k, d, j, fs ! j) = 1"
proof (induction fr)
  case Nil
  then show ?case by simp
next
  case (Cons df fr)
  obtain d0 fs0 where df: "df = (d0, fs0)" by (cases df)
  show ?case
  proof (cases "(d, fs) = df")
    case True
    then have "d \<notin> fst ` set fr" using Cons.prems(1) df by auto
    then show ?thesis
      using True Cons.prems(3) df by (simp add: count_frames_other count_frame_decodes)
  next
    case False
    then have in_fr: "(d, fs) \<in> set fr" using Cons.prems(2) by simp
    then have "d \<in> fst ` set fr" by force
    then have "d0 \<noteq> d" using Cons.prems(1) df by auto
    then show ?thesis
      using Cons.IH in_fr Cons.prems(1,3) df by (simp add: count_frame_decodes)
  qed
qed

lemma count_loadAvatar_key:
  "k \<noteq> k' \<Longrightarrow> count_list (snd (loadAvatar k a)) (k', d, j, c) = 0"
proof -
  assume ne: "k \<noteq> k'"
  have "count_list (concat (map (frame_decodes k) fr)) (k', d, j, c) = 0" for fr
    using ne by (induction fr) (auto simp: count_frame_decodes)
  then show ?thesis by (simp add: loadAvatar_def split: option.splits)
qed

lemma count_avatars_other:
  "k \<notin> fst ` set avs \<Longrightarrow>
   count_list (concat (map (\<lambda>(k, a). snd (loadAvatar k a)) avs)) (k, d, j, c) = 0"
  by (induction avs) (auto simp: count_loadAvatar_key)

lemma count_avatars:
  "distinct (map fst avs) \<Longrightarrow> (k, a) \<in> set avs \<Longrightarrow>
   count_list (concat (map (\<lambda>(k, a). snd (loadAvatar k a)) avs)) (k, d, j, c) =
   count_list (snd (loadAvatar k a)) (k, d, j, c)"
proof (induction avs)
  case Nil
  then show ?case by simp
next
  case (Cons ka avs)
  obtain k0 a0 where ka: "ka = (k0, a0)" by (cases ka)
  show ?case
  proof (cases "(k, a) = ka")
    case True
    then have "k \<notin> fst ` set avs" using Cons.prems(1) ka by auto
    then show ?thesis using True ka by (simp add: count_avatars_other)
  next
    case False
    then have in_avs: "(k, a) \<in> set avs" using Cons.prems(2) by simp
    then have "k \<in> fst ` set avs" by force
    then have "k0 \<noteq> k" using Cons.prems(1) ka by auto
    then show ?thesis
      using Cons.IH in_avs Cons.prems(1) ka by (simp add: count_loadAvatar_key)
  qed
qed

lemma in_frame_decodes:
  "t \<in> set (frame_decodes k (d, fs)) \<Longrightarrow> \<exists>j < length fs. t = (k, d, j, fs ! j)"
  by (auto simp: frame_decodes_def in_set_enumerate_eq)

lemma started_only_frames:
  assumes "t \<in> set (concat (map (\<lambda>(k, a). snd (loadAvatar k a)) avs))"
  shows "\<exists>k a d fs j. (k, a) \<in> set avs \<and> loadedImages a = None
           \<and> (d, fs) \<in> set (frames a) \<and> j < length fs \<and> t = (k, d, j, fs ! j)"
proof -
  from assms obtain k a where ka: "(k, a) \<in> set avs" and t: "t \<in> set (snd (loadAvatar k a))"
    by auto
  from t have unloaded: "loadedImages a = None"
    by (cases "loadedImages a") (simp_all add: loadAvatar_def)
  with t have "t \<in> set (concat (map (frame_decodes k) (frames a)))"
    by (simp add: loadAvatar_def)
  then obtain d fs where df: "(d, fs) \<in> set (frames a)" and "t \<in> set (frame_decodes k (d, fs))"
    by auto
  then obtain j where "j < length fs" "t = (k, d, j, fs ! j)"
    using in_frame_decodes by blast
  with ka unloaded df show ?thesis by blast
qed

lemma started_twice:
  "started s (loadAvatarImages (loadAvatarImages s)) =
     concat (map (\<lambda>(k, a). snd (loadAvatar k a)) (avatars s))"
  by (simp add: loadAvatarImages_twice started_def) (simp add: loadAvatarImages_def)

section \<open>Lemmas on the event loop\<close>

lemma step_keeps_origin:
  assumes "\<not> join_succeeds e" and "myPlayer s = No_player"
    and "viewportX s = Num 0" and "viewportY s = Num 0"
  shows "myPlayer (step e s) = No_player \<and> viewportX (step e s) = Num 0
       \<and> viewportY (step e s) = Num 0"
proof (cases e)
  case (SocketMessage m)
  then show ?thesis
    using assms
    by (cases m)
       (simp_all add: step_def handleServerMessage_def draw_fields updateViewport_def
          loadAvatarImages_def Let_def)
qed (use assms in \<open>simp_all add: step_def draw_fields updateViewport_def setupCanvas_def
      joinGame_def handleKeyDown_def handleKeyUp_def sendMoveCommand_def sendStopCommand_def
      Let_def split: option.splits local_player.splits\<close>)

lemma run_keeps_origin:
  assumes "\<forall>e \<in> set es. \<not> join_succeeds e"
    and "myPlayer s = No_player" and "viewportX s = Num 0" and "viewportY s = Num 0"
  shows "myPlayer (run es s) = No_player \<and> viewportX (run es s) = Num 0
       \<and> viewportY (run es s) = Num 0"
  using assms
proof (induction es arbitrary: s)
  case Nil
  then show ?case by (simp add: run_def)
next
  case (Cons e es)
  have "myPlayer (step e s) = No_player \<and> viewportX (step e s) = Num 0
      \<and> viewportY (step e s) = Num 0"
    using step_keeps_origin [of e s] Cons.prems by simp
  then have "myPlayer (run es (step e s)) = No_player \<and> viewportX (run es (step e s)) = Num 0
           \<and> viewportY (run es (step e s)) = Num 0"
    using Cons.IH [of "step e s"] Cons.prems(1) by simp
  then show ?case by (simp add: run_def)
qed

lemma constructor_origin:
  "myPlayer (constructor w h) = No_player" "viewportX (constructor w h) = Num 0"
  "viewportY (constructor w h) = Num 0"
  by (simp_all add: constructor_def connectToServer_def loadWorldMap_def setupCanvas_def)

lemma draw_without_worldImage: "worldImage s = None \<Longrightarrow> draw s = s"
  by (simp add: draw_def)

lemma draw_worldImage: "worldImage (draw s) = worldImage s"
  by (subst draw_only_ops) simp

lemma step_worldImage:
  assumes "worldImage s \<noteq> None"
  shows "worldImage (step e s) \<noteq> None"
proof (cases e)
  case (SocketMessage m)
  then show ?thesis
    using assms
    by (cases m)
       (auto simp: step_def handleServerMessage_def draw_worldImage updateViewport_def
          loadAvatarImages_def Let_def split: option.splits local_player.splits)
qed (use assms in \<open>auto simp: step_def draw_worldImage updateViewport_def setupCanvas_def
      joinGame_def handleKeyDown_def handleKeyUp_def sendMoveCommand_def sendStopCommand_def
      Let_def split: option.splits local_player.splits\<close>)

lemma worldImage_never_null: "worldImage (run es (constructor w h)) \<noteq> None"
proof -
  have "worldImage s \<noteq> None \<Longrightarrow> worldImage (run es s) \<noteq> None" for s
  proof (induction es arbitrary: s)
    case Nil
    then show ?case by (simp add: run_def)
  next
    case (Cons e es)
    from Cons.IH [OF step_worldImage [OF Cons.prems], of e] show ?case
      by (simp add: run_def)
  qed
  moreover have "worldImage (constructor w h) \<noteq> None"
    by (simp add: constructor_def connectToServer_def loadWorldMap_def)
  ultimately show ?thesis by blast
qed

text \<open>
  A successful join under an id that is no key of the roster but the name of a member of
  \<open>Object.prototype\<close>: \<open>myPlayer\<close> is that member and both offsets are \<open>NaN\<close>.
\<close>

lemma join_under_inherited_name:
  "myPlayer (handleServerMessage s (Join_game True ''toString'' [] [] err))
     = Not_a_player ''toString''
   \<and> viewportX (handleServerMessage s (Join_game True ''toString'' [] [] err)) = NaN
   \<and> viewportY (handleServerMessage s (Join_game True ''toString'' [] [] err)) = NaN"
  by (simp add: handleServerMessage_def draw_fields updateViewport_def loadAvatarImages_def
      find_player_def object_prototype_names_def)

section \<open>Lemmas on the key handlers\<close>

lemma handleKeyDown_arrow:
  assumes "connected s" and "socket s \<noteq> None" and "key_direction key = Some d"
  shows "handleKeyDown s key =
           s\<lparr>prevented := prevented s @ [key], keysPressed := hold_key key (keysPressed s),
             sent := sent s @ [Move d], currentDirection := Some d\<rparr>"
  using assms by (auto simp: handleKeyDown_def sendMoveCommand_def)

lemma handleKeyUp_still_held:
  assumes "connected s" and "socket s \<noteq> None" and "key \<in> set (keysPressed s)"
    and "k \<in> set (keysPressed s)" and "k \<noteq> key" and "k \<in> set movementKeys"
  shows "handleKeyUp s key = s\<lparr>keysPressed := removeAll key (keysPressed s)\<rparr>"
proof -
  have "list_ex (\<lambda>k. k \<in> set movementKeys) (removeAll key (keysPressed s))"
    using assms(4-6) by (auto simp: list_ex_iff)
  then show ?thesis
    using assms(1-3) by (auto simp: handleKeyUp_def js_truthy_at_def Let_def)
qed

lemma handleKeyUp_last_held:
  assumes "connected s" and "socket s \<noteq> None" and "key \<in> set (keysPressed s)"
    and "set (keysPressed s) \<inter> set movementKeys \<subseteq> {key}"
  shows "handleKeyUp s key =
           s\<lparr>keysPressed := removeAll key (keysPressed s),
             sent := sent s @ [Stop], currentDirection := None\<rparr>"
proof -
  have "\<not> list_ex (\<lambda>k. k \<in> set movementKeys) (removeAll key (keysPressed s))"
    using assms(4) by (auto simp: list_ex_iff)
  then show ?thesis
    using assms(1-3) by (auto simp: handleKeyUp_def js_truthy_at_def sendStopCommand_def Let_def)
qed

lemma set_hold_key: "set (hold_key key ks) = insert key (set ks)"
  by (auto simp: hold_key_def)

section \<open>Evaluating the concrete clients\<close>

lemma opened_eval:
  "opened =
   \<lparr>canvas_width = 800, canvas_height = 600,
    worldImage = Some \<lparr>src = ''world.jpg'', complete = False\<rparr>,
    worldSize = 2048, socket = Some ''wss://codepath-mmorg.onrender.com'',
    connected = True, myPlayerId = None, myPlayer = No_player,
    players = [], players_proto = None, avatars = [], avatars_proto = None,
    viewportX = Num 0, viewportY = Num 0, keysPressed = [], currentDirection = None,
    sent = [Join_game_request ''Sharan''], canvas_ops = [], decodes = [],
    console = [Console_log ''Connected to game server''], prevented = []\<rparr>"
  by (simp add: opened_def step_def joinGame_def constructor_def connectToServer_def
      loadWorldMap_def setupCanvas_def)

lemma knight_loaded:
  "loadAvatar ''knight'' knight =
     (knight\<lparr>loadedImages := Some knight_images\<rparr>,
      [(''knight'', ''north'', 0, ''n0''), (''knight'', ''north'', 1, ''n1''),
       (''knight'', ''south'', 0, ''s0'')])"
  by (simp add: loadAvatar_def knight_def knight_images_def js_set_def frame_decodes_def
      enumerate_eq_zip)

lemma loading_step:
  "loading = handleServerMessage opened
     (Join_game True ''A'' [(''A'', player_at ''A'' 100 100)] [(''knight'', knight)] [])"
  by (simp add: loading_def run_def opened_def) (simp add: step_def)

lemma loading_before_draw:
  "updateViewport (loadAvatarImages
     (opened\<lparr>console := console opened @ [Console_log ''Received message:''],
        myPlayerId := Some ''A'',
        players := [(''A'', player_at ''A'' 100 100)], players_proto := None,
        avatars := [(''knight'', knight)], avatars_proto := None,
        myPlayer := Player (player_at ''A'' 100 100)\<rparr>)) =
   \<lparr>canvas_width = 800, canvas_height = 600,
    worldImage = Some \<lparr>src = ''world.jpg'', complete = False\<rparr>,
    worldSize = 2048, socket = Some ''wss://codepath-mmorg.onrender.com'',
    connected = True, myPlayerId = Some ''A'', myPlayer = Player (player_at ''A'' 100 100),
    players = [(''A'', player_at ''A'' 100 100)], players_proto = None,
    avatars = [(''knight'', knight\<lparr>loadedImages := Some knight_images\<rparr>)],
    avatars_proto = None,
    viewportX = Num 0, viewportY = Num 0, keysPressed = [], currentDirection = None,
    sent = [Join_game_request ''Sharan''], canvas_ops = [],
    decodes = [(''knight'', ''north'', 0, ''n0''), (''knight'', ''north'', 1, ''n1''),
       (''knight'', ''south'', 0, ''s0'')],
    console = [Console_log ''Connected to game server'', Console_log ''Received message:''],
    prevented = []\<rparr>"
  by (simp add: opened_eval loadAvatarImages_def knight_loaded updateViewport_def
      player_at_def)

lemma draw_joined:
  assumes "worldImage s = Some \<lparr>src = ''world.jpg'', complete = False\<rparr>"
    and "canvas_width s = 800" and "canvas_height s = 600"
    and "viewportX s = Num 0" and "viewportY s = Num 0"
    and "players s = [(''A'', player_at ''A'' 100 100)]"
    and "avatars s = [(''knight'', knight\<lparr>loadedImages := Some knight_images\<rparr>)]"
    and "avatars_proto s = None"
  shows "canvas_ops (draw s) = canvas_ops s @ loading_ops"
  using assms
  by (simp add: draw_def drawPlayer_def js_get_def player_at_def knight_images_def
      new_Image_def loading_ops_def Let_def)

lemma loading_fields:
  "worldImage loading = Some \<lparr>src = ''world.jpg'', complete = False\<rparr>"
  "canvas_width loading = 800" "canvas_height loading = 600"
  "viewportX loading = Num 0" "viewportY loading = Num 0"
  "players loading = [(''A'', player_at ''A'' 100 100)]"
  "avatars loading = [(''knight'', knight\<lparr>loadedImages := Some knight_images\<rparr>)]"
  "avatars_proto loading = None"
  "canvas_ops loading = loading_ops"
proof -
  let ?b = "updateViewport (loadAvatarImages
     (opened\<lparr>console := console opened @ [Console_log ''Received message:''],
        myPlayerId := Some ''A'',
        players := [(''A'', player_at ''A'' 100 100)], players_proto := None,
        avatars := [(''knight'', knight)], avatars_proto := None,
        myPlayer := Player (player_at ''A'' 100 100)\<rparr>))"
  have l: "loading = draw ?b"
    by (simp add: loading_step handleServerMessage_def find_player_def player_at_def)
  have d: "draw ?b = ?b\<lparr>canvas_ops := canvas_ops (draw ?b)\<rparr>"
    by (rule draw_only_ops)
  have o: "canvas_ops (draw ?b) = canvas_ops ?b @ loading_ops"
    by (rule draw_joined) (simp_all add: loading_before_draw)
  have e: "loading = ?b\<lparr>canvas_ops := loading_ops\<rparr>"
    using l d o by (simp add: loading_before_draw)
  show "worldImage loading = Some \<lparr>src = ''world.jpg'', complete = False\<rparr>"
    "canvas_width loading = 800" "canvas_height loading = 600"
    "viewportX loading = Num 0" "viewportY loading = Num 0"
    "players loading = [(''A'', player_at ''A'' 100 100)]"
    "avatars loading = [(''knight'', knight\<lparr>loadedImages := Some knight_images\<rparr>)]"
    "avatars_proto loading = None"
    "canvas_ops loading = loading_ops"
    unfolding e by (simp_all add: loading_before_draw)
qed

section \<open>Viewport\<close>

text \<open>
  C1. When a local player is recorded, \<open>updateViewport\<close> sets each viewport coordinate to
  the player's coordinate minus half the canvas extent on that axis, clamped from above
  by \<open>worldSize\<close> minus the canvas extent and then from below by 0. So both offsets are
  numbers, \<open>0 \<le> viewportX \<le> max 0 (worldSize - canvas_width)\<close> and the same for
  \<open>viewportY\<close>, each axis by itself, and a coordinate is 0 whenever the canvas extent on
  its axis exceeds the world size.
\<close>

theorem updateViewport_clamps:
  assumes "myPlayer s = Player p"
  shows "\<exists>vx vy.
         viewportX (updateViewport s) = Num vx
       \<and> viewportY (updateViewport s) = Num vy
       \<and> vx = max 0 (min (p_x p - of_nat (canvas_width s) / 2)
                        (worldSize s - of_nat (canvas_width s)))
       \<and> vy = max 0 (min (p_y p - of_nat (canvas_height s) / 2)
                        (worldSize s - of_nat (canvas_height s)))
       \<and> 0 \<le> vx
       \<and> vx \<le> max 0 (worldSize s - of_nat (canvas_width s))
       \<and> 0 \<le> vy
       \<and> vy \<le> max 0 (worldSize s - of_nat (canvas_height s))
       \<and> (worldSize s < of_nat (canvas_width s) \<longrightarrow> vx = 0)
       \<and> (worldSize s < of_nat (canvas_height s) \<longrightarrow> vy = 0)"
  using assms by (auto simp: updateViewport_def Let_def)

theorem updateViewport_clamps_witness:
  "myPlayer (roster\<lparr>canvas_width := 4000, myPlayer := Player (player_at ''A'' 1900 2000)\<rparr>)
     = Player (player_at ''A'' 1900 2000)
   \<and> viewportX (updateViewport
        (roster\<lparr>canvas_width := 4000, myPlayer := Player (player_at ''A'' 1900 2000)\<rparr>))
       = Num 0
   \<and> viewportY (updateViewport
        (roster\<lparr>canvas_width := 4000, myPlayer := Player (player_at ''A'' 1900 2000)\<rparr>))
       = Num 1448"
proof -
  let ?s = "roster\<lparr>canvas_width := 4000, myPlayer := Player (player_at ''A'' 1900 2000)\<rparr>"
  have h: "myPlayer ?s = Player (player_at ''A'' 1900 2000)" by simp
  have w: "canvas_height roster = 600" "worldSize roster = 2048"
    by (simp_all add: roster_def opened_def step_def joinGame_def constructor_def
        connectToServer_def loadWorldMap_def setupCanvas_def)
  from updateViewport_clamps [OF h] obtain vx vy where
    "viewportX (updateViewport ?s) = Num vx" "viewportY (updateViewport ?s) = Num vy"
    "vx = max 0 (min (p_x (player_at ''A'' 1900 2000) - of_nat (canvas_width ?s) / 2)
                     (worldSize ?s - of_nat (canvas_width ?s)))"
    "vy = max 0 (min (p_y (player_at ''A'' 1900 2000) - of_nat (canvas_height ?s) / 2)
                     (worldSize ?s - of_nat (canvas_height ?s)))"
    by blast
  then show ?thesis
    using h by (simp add: w player_at_def)
qed

text \<open>
  C9. With no local player recorded, \<open>updateViewport\<close> returns the client unchanged.
  After any sequence of events that contains no successful \<open>join_game\<close> answer, no
  local player is recorded and both viewport offsets still have their initial value 0.
\<close>

theorem viewport_untouched_before_join:
  "(myPlayer s = No_player \<longrightarrow> updateViewport s = s)
   \<and> ((\<forall>e \<in> set es. \<not> join_succeeds e) \<longrightarrow>
        myPlayer (run es (constructor w h)) = No_player
      \<and> viewportX (run es (constructor w h)) = Num 0
      \<and> viewportY (run es (constructor w h)) = Num 0)"
  using run_keeps_origin [of es "constructor w h"]
  by (simp add: updateViewport_def constructor_origin)

theorem viewport_untouched_before_join_witness:
  "myPlayer (constructor 800 600) = No_player
   \<and> \<not> list_ex join_succeeds early_events
   \<and> updateViewport (constructor 800 600) = constructor 800 600
   \<and> viewportX (run early_events (constructor 800 600)) = Num 0
   \<and> viewportY (run early_events (constructor 800 600)) = Num 0"
proof -
  have h1: "myPlayer (constructor 800 600) = No_player"
    by (simp add: constructor_origin)
  have h2: "\<forall>e \<in> set early_events. \<not> join_succeeds e"
    by (simp add: early_events_def)
  have h3: "\<not> list_ex join_succeeds early_events"
    by (simp add: early_events_def)
  show ?thesis
    using viewport_untouched_before_join [of "constructor 800 600" early_events 800 600] h1 h2 h3
    by simp
qed

section \<open>The server-message reducer\<close>




text \<open>
  C3. A \<open>player_left\<close> message removes the entry under the message's \<open>playerId\<close> and
  leaves the entry under every other id as it was; when no entry has that id, the
  mapping after the message is the mapping before it.
\<close>

theorem player_left_removes:
  "map_of (players (handleServerMessage s (Player_left playerId))) =
     (map_of (players s))(playerId := None)
   \<and> (playerId \<notin> fst ` set (players s) \<longrightarrow>
        players (handleServerMessage s (Player_left playerId)) = players s)"
  by (simp add: handleServerMessage_def draw_fields delete_conv')

theorem player_left_removes_witness:
  "''C'' \<notin> fst ` set (players roster)
   \<and> players (handleServerMessage roster (Player_left ''C'')) = players roster
   \<and> map_of (players (handleServerMessage roster (Player_left ''B''))) ''B'' = None
   \<and> map_of (players (handleServerMessage roster (Player_left ''B''))) ''A''
       = Some (player_at ''A'' 100 100)"
proof -
  have r: "players roster = [(''A'', player_at ''A'' 100 100), (''B'', player_at ''B'' 1500 900)]"
    by (simp add: roster_def)
  have h: "''C'' \<notin> fst ` set (players roster)" by (simp add: r)
  show ?thesis
    using player_left_removes [of roster "''C''"] player_left_removes [of roster "''B''"] h
    by (simp add: r)
qed

text \<open>
  C7. A \<open>join_game\<close> message with \<open>success = false\<close> only writes to the console: the
  player mapping, the avatar mapping, the local player id, the local player reference,
  the viewport offsets and every other field are as before, and nothing is sent.
\<close>

theorem join_game_failure_only_logs:
  "handleServerMessage s (Join_game False playerId ps avs err) =
     s\<lparr>console := console s @
         [Console_log ''Received message:'', Console_error ''Failed to join game:'']\<rparr>"
  by (simp add: handleServerMessage_def)

theorem join_game_failure_only_logs_witness:
  "players (handleServerMessage roster (Join_game False [] [] [] ''full'')) = players roster
   \<and> myPlayer (handleServerMessage roster (Join_game False [] [] [] ''full'')) = myPlayer roster
   \<and> sent (handleServerMessage roster (Join_game False [] [] [] ''full'')) = sent roster"
  using join_game_failure_only_logs [of roster "[]" "[]" "[]" "''full''"] by simp

section \<open>Asset loading\<close>

text \<open>
  C4. Running \<open>loadAvatarImages\<close> twice in succession is the same as running it once: the
  second run starts no decode and leaves every avatar, with its cached images, as the
  first run left it. Over the two runs, every frame of an avatar that was not yet
  marked loaded is decoded exactly once, an avatar already marked loaded is skipped
  (its record is unchanged and none of its frames is decoded), and nothing else is
  decoded. The keys of the avatar mapping and of each \<open>frames\<close> object are pairwise
  different, as the keys of an object are.
\<close>

theorem loadAvatarImages_idempotent:
  assumes "distinct (map fst (avatars s))"
    and "\<forall>(k, a) \<in> set (avatars s). distinct (map fst (frames a))"
  shows "loadAvatarImages (loadAvatarImages s) = loadAvatarImages s
       \<and> (\<forall>(k, a) \<in> set (avatars s).
            (loadedImages a = None \<longrightarrow>
               (\<forall>(d, fs) \<in> set (frames a). \<forall>j < length fs.
                  count_list (started s (loadAvatarImages (loadAvatarImages s)))
                    (k, d, j, fs ! j) = 1))
          \<and> (loadedImages a \<noteq> None \<longrightarrow>
               map_of (avatars (loadAvatarImages (loadAvatarImages s))) k = Some a
             \<and> (\<forall>d j c. count_list (started s (loadAvatarImages (loadAvatarImages s)))
                    (k, d, j, c) = 0)))
       \<and> (\<forall>t \<in> set (started s (loadAvatarImages (loadAvatarImages s))).
            \<exists>k a d fs j. (k, a) \<in> set (avatars s) \<and> loadedImages a = None
              \<and> (d, fs) \<in> set (frames a) \<and> j < length fs \<and> t = (k, d, j, fs ! j))"
proof (intro conjI ballI)
  show "loadAvatarImages (loadAvatarImages s) = loadAvatarImages s"
    by (rule loadAvatarImages_twice)
next
  fix ka assume mem: "ka \<in> set (avatars s)"
  obtain k a where ka: "ka = (k, a)" by (cases ka)
  have in_avs: "(k, a) \<in> set (avatars s)" using mem ka by simp
  have dist_fr: "distinct (map fst (frames a))" using assms(2) in_avs by auto
  have cnt: "count_list (started s (loadAvatarImages (loadAvatarImages s))) (k, d, j, c) =
             count_list (snd (loadAvatar k a)) (k, d, j, c)" for d j c
    by (simp add: started_twice count_avatars [OF assms(1) in_avs])
  have fresh: "\<forall>(d, fs) \<in> set (frames a). \<forall>j < length fs.
                 count_list (started s (loadAvatarImages (loadAvatarImages s)))
                   (k, d, j, fs ! j) = 1" if "loadedImages a = None"
  proof (intro ballI)
    fix dfs assume m: "dfs \<in> set (frames a)"
    obtain d fs where dfs: "dfs = (d, fs)" by (cases dfs)
    have "count_list (snd (loadAvatar k a)) (k, d, j, fs ! j) = 1" if "j < length fs" for j
      using count_frames [OF dist_fr _ that, of d k] m dfs \<open>loadedImages a = None\<close>
      by (simp add: loadAvatar_def)
    then show "case dfs of (d, fs) \<Rightarrow> \<forall>j < length fs.
                 count_list (started s (loadAvatarImages (loadAvatarImages s)))
                   (k, d, j, fs ! j) = 1"
      by (simp add: dfs cnt)
  qed
  have kept: "map_of (avatars (loadAvatarImages (loadAvatarImages s))) k = Some a
            \<and> (\<forall>d j c. count_list (started s (loadAvatarImages (loadAvatarImages s)))
                    (k, d, j, c) = 0)" if l: "loadedImages a \<noteq> None"
  proof -
    have "map_of (map (\<lambda>(k, a). (k, fst (loadAvatar k a))) avs) k = Some a"
      if "distinct (map fst avs)" "(k, a) \<in> set avs" for avs
      using that
    proof (induction avs)
      case Nil
      then show ?case by simp
    next
      case (Cons x avs)
      obtain k0 a0 where x: "x = (k0, a0)" by (cases x)
      show ?case
      proof (cases "(k, a) = x")
        case True
        then show ?thesis using x loadAvatar_skip [OF l, of k] by auto
      next
        case False
        then have m: "(k, a) \<in> set avs" using Cons.prems(2) by simp
        then have "k \<in> fst ` set avs" by force
        then have "k0 \<noteq> k" using Cons.prems(1) x by auto
        then show ?thesis using Cons.IH m Cons.prems(1) x by simp
      qed
    qed
    then have "map_of (avatars (loadAvatarImages (loadAvatarImages s))) k = Some a"
      using assms(1) in_avs by (simp add: loadAvatarImages_twice) (simp add: loadAvatarImages_def)
    then show ?thesis by (simp add: cnt loadAvatar_skip [OF l])
  qed
  show "case ka of (k, a) \<Rightarrow>
          (loadedImages a = None \<longrightarrow>
             (\<forall>(d, fs) \<in> set (frames a). \<forall>j < length fs.
                count_list (started s (loadAvatarImages (loadAvatarImages s)))
                  (k, d, j, fs ! j) = 1))
        \<and> (loadedImages a \<noteq> None \<longrightarrow>
             map_of (avatars (loadAvatarImages (loadAvatarImages s))) k = Some a
           \<and> (\<forall>d j c. count_list (started s (loadAvatarImages (loadAvatarImages s)))
                  (k, d, j, c) = 0))"
    using fresh kept by (simp add: ka)
next
  fix t assume "t \<in> set (started s (loadAvatarImages (loadAvatarImages s)))"
  then have "t \<in> set (concat (map (\<lambda>(k, a). snd (loadAvatar k a)) (avatars s)))"
    by (simp only: started_twice)
  then show "\<exists>k a d fs j. (k, a) \<in> set (avatars s) \<and> loadedImages a = None
      \<and> (d, fs) \<in> set (frames a) \<and> j < length fs \<and> t = (k, d, j, fs ! j)"
    by (rule started_only_frames)
qed

theorem loadAvatarImages_idempotent_witness:
  "distinct (map fst (avatars roster))
   \<and> avatars roster = [(''knight'', knight)]
   \<and> distinct (map fst (frames knight))
   \<and> loadAvatarImages (loadAvatarImages roster) = loadAvatarImages roster
   \<and> count_list (started roster (loadAvatarImages (loadAvatarImages roster)))
        (''knight'', ''north'', 1, ''n1'') = 1"
proof -
  have r: "avatars roster = [(''knight'', knight)]"
    by (simp add: roster_def)
  have k: "loadedImages knight = None"
    "frames knight = [(''north'', [''n0'', ''n1'']), (''south'', [''s0''])]"
    by (simp_all add: knight_def)
  have h1: "distinct (map fst (avatars roster))"
    by (simp add: r)
  have h2: "\<forall>(k, a) \<in> set (avatars roster). distinct (map fst (frames a))"
    by (simp add: r k)
  define D where "D = started roster (loadAvatarImages (loadAvatarImages roster))"
  from loadAvatarImages_idempotent [OF h1 h2, folded D_def]
  have twice: "loadAvatarImages (loadAvatarImages roster) = loadAvatarImages roster"
    and each: "\<forall>(d, fs) \<in> set (frames knight). \<forall>j < length fs.
        count_list D (''knight'', d, j, fs ! j) = 1"
    by (simp_all add: r k)
  from each have "\<forall>j < length [''n0'', ''n1''].
        count_list D (''knight'', ''north'', j, [''n0'', ''n1''] ! j) = 1"
    by (simp add: k)
  then have "1 < length [''n0'', ''n1''] \<longrightarrow>
        count_list D (''knight'', ''north'', 1, [''n0'', ''n1''] ! 1) = 1"
    by (rule spec)
  then have "count_list D (''knight'', ''north'', 1, ''n1'') = 1"
    by simp
  moreover have "distinct (map fst (frames knight))"
    by (simp add: k)
  ultimately show ?thesis using h1 r twice by (simp add: D_def)
qed

section \<open>Keyboard input\<close>

text \<open>
  C8. While the connection is not ready (the \<open>connected\<close> flag is off, or there is no
  socket), a key press and a key release leave the client as it is: no move command and
  no stop command is sent.
\<close>

theorem keys_ignored_when_not_ready:
  assumes "\<not> connected s \<or> socket s = None"
  shows "handleKeyDown s key = s \<and> handleKeyUp s key = s
       \<and> sent (step (KeyDown key) s) = sent s \<and> sent (step (KeyUp key) s) = sent s"
  using assms by (auto simp: handleKeyDown_def handleKeyUp_def step_def)

theorem keys_ignored_when_not_ready_witness:
  "\<not> connected (constructor 800 600)
   \<and> handleKeyDown (constructor 800 600) ''ArrowUp'' = constructor 800 600
   \<and> handleKeyUp (constructor 800 600) ''ArrowUp'' = constructor 800 600
   \<and> sent (step (KeyDown ''ArrowUp'') (constructor 800 600)) = []
   \<and> sent (step (KeyUp ''ArrowUp'') (constructor 800 600)) = []"
proof -
  have c: "\<not> connected (constructor 800 600)" "sent (constructor 800 600) = []"
    by (simp_all add: constructor_def connectToServer_def loadWorldMap_def setupCanvas_def)
  have h: "\<not> connected (constructor 800 600) \<or> socket (constructor 800 600) = None"
    using c(1) by simp
  show ?thesis
    using keys_ignored_when_not_ready [OF h, of "''ArrowUp''"] c by simp
qed




text \<open>
  C5. With the connection ready and no directional key other than Up and Down held:
  after press Up, press Down the two move commands have been sent; the release of Up
  sends nothing (Down is still held, and the last direction sent stays \<open>down\<close>); the
  release of Down that follows sends exactly one stop command.
\<close>

theorem up_down_release:
  assumes "connected s" and "socket s \<noteq> None"
    and "set (keysPressed s) \<inter> set movementKeys \<subseteq> {''ArrowUp'', ''ArrowDown''}"
  shows "sent (run [KeyDown ''ArrowUp'', KeyDown ''ArrowDown''] s) =
           sent s @ [Move ''up'', Move ''down'']
       \<and> sent (run [KeyDown ''ArrowUp'', KeyDown ''ArrowDown'', KeyUp ''ArrowUp''] s) =
           sent (run [KeyDown ''ArrowUp'', KeyDown ''ArrowDown''] s)
       \<and> currentDirection (run [KeyDown ''ArrowUp'', KeyDown ''ArrowDown'', KeyUp ''ArrowUp''] s) =
           Some ''down''
       \<and> sent (run [KeyDown ''ArrowUp'', KeyDown ''ArrowDown'', KeyUp ''ArrowUp'',
                     KeyUp ''ArrowDown''] s) =
           sent (run [KeyDown ''ArrowUp'', KeyDown ''ArrowDown'', KeyUp ''ArrowUp''] s) @ [Stop]"
proof -
  define s1 where "s1 = handleKeyDown s ''ArrowUp''"
  define s2 where "s2 = handleKeyDown s1 ''ArrowDown''"
  define s3 where "s3 = handleKeyUp s2 ''ArrowUp''"
  define s4 where "s4 = handleKeyUp s3 ''ArrowDown''"
  have up: "key_direction ''ArrowUp'' = Some ''up''"
    and down: "key_direction ''ArrowDown'' = Some ''down''"
    by (simp_all add: key_direction_def)
  have arrows: "''ArrowUp'' \<in> set movementKeys" "''ArrowDown'' \<in> set movementKeys"
    by (simp_all add: movementKeys_def)
  have e1: "s1 = s\<lparr>prevented := prevented s @ [''ArrowUp''],
                    keysPressed := hold_key ''ArrowUp'' (keysPressed s),
                    sent := sent s @ [Move ''up''], currentDirection := Some ''up''\<rparr>"
    unfolding s1_def by (rule handleKeyDown_arrow [OF assms(1,2) up])
  have c1: "connected s1" "socket s1 \<noteq> None"
    and k1: "set (keysPressed s1) = insert ''ArrowUp'' (set (keysPressed s))"
    and t1: "sent s1 = sent s @ [Move ''up'']"
    using assms(1,2) by (simp_all add: e1 set_hold_key)
  have e2: "s2 = s1\<lparr>prevented := prevented s1 @ [''ArrowDown''],
                     keysPressed := hold_key ''ArrowDown'' (keysPressed s1),
                     sent := sent s1 @ [Move ''down''], currentDirection := Some ''down''\<rparr>"
    unfolding s2_def by (rule handleKeyDown_arrow [OF c1 down])
  have c2: "connected s2" "socket s2 \<noteq> None"
    and k2: "set (keysPressed s2) = insert ''ArrowDown'' (insert ''ArrowUp'' (set (keysPressed s)))"
    and t2: "sent s2 = sent s @ [Move ''up'', Move ''down'']"
    and d2: "currentDirection s2 = Some ''down''"
    using c1 by (simp_all add: e2 set_hold_key k1 t1)
  have e3: "s3 = s2\<lparr>keysPressed := removeAll ''ArrowUp'' (keysPressed s2)\<rparr>"
    unfolding s3_def
    by (rule handleKeyUp_still_held [OF c2, where k = "''ArrowDown''"])
       (simp_all add: k2 arrows)
  have c3: "connected s3" "socket s3 \<noteq> None"
    and k3: "set (keysPressed s3) = insert ''ArrowDown'' (set (keysPressed s)) - {''ArrowUp''}"
    and t3: "sent s3 = sent s2"
    and d3: "currentDirection s3 = Some ''down''"
    using c2 by (auto simp: e3 k2 d2)
  have e4: "s4 = s3\<lparr>keysPressed := removeAll ''ArrowDown'' (keysPressed s3),
                     sent := sent s3 @ [Stop], currentDirection := None\<rparr>"
    unfolding s4_def
    by (rule handleKeyUp_last_held [OF c3]) (use assms(3) in \<open>auto simp: k3\<close>)
  have t4: "sent s4 = sent s3 @ [Stop]"
    by (simp add: e4)
  have r2: "run [KeyDown ''ArrowUp'', KeyDown ''ArrowDown''] s = s2"
    and r3: "run [KeyDown ''ArrowUp'', KeyDown ''ArrowDown'', KeyUp ''ArrowUp''] s = s3"
    and r4: "run [KeyDown ''ArrowUp'', KeyDown ''ArrowDown'', KeyUp ''ArrowUp'',
                  KeyUp ''ArrowDown''] s = s4"
    by (simp_all add: run_def step_def s1_def s2_def s3_def s4_def)
  show ?thesis
    unfolding r2 r3 r4 using t2 t3 d3 t4 by simp
qed

theorem up_down_release_witness:
  "connected opened \<and> socket opened \<noteq> None
   \<and> set (keysPressed opened) \<inter> set movementKeys \<subseteq> {''ArrowUp'', ''ArrowDown''}
   \<and> sent (run [KeyDown ''ArrowUp'', KeyDown ''ArrowDown'', KeyUp ''ArrowUp''] opened) =
       [Join_game_request ''Sharan'', Move ''up'', Move ''down'']
   \<and> sent (run [KeyDown ''ArrowUp'', KeyDown ''ArrowDown'', KeyUp ''ArrowUp'',
                 KeyUp ''ArrowDown''] opened) =
       [Join_game_request ''Sharan'', Move ''up'', Move ''down'', Stop]"
proof -
  have o: "connected opened" "socket opened \<noteq> None" "keysPressed opened = []"
    "sent opened = [Join_game_request ''Sharan'']"
    by (simp_all add: opened_def step_def joinGame_def constructor_def connectToServer_def
        loadWorldMap_def setupCanvas_def)
  have h: "set (keysPressed opened) \<inter> set movementKeys \<subseteq> {''ArrowUp'', ''ArrowDown''}"
    by (simp add: o)
  show ?thesis
    using up_down_release [OF o(1,2) h] o(1,2) h by (simp add: o(4))
qed


section \<open>Rendering\<close>

text \<open>
  C6. The claim is that \<open>draw()\<close> clears nothing, blits nothing and draws no player while
  the background is not yet loaded. The guard of \<open>draw\<close> tests that \<open>worldImage\<close> is not
  null; \<open>loadWorldMap\<close> stores the image object before the load has finished, so the
  guard holds in every state after the constructor (\<open>worldImage_never_null\<close>). In the
  client \<open>loading\<close> the world map has not loaded, yet the \<open>draw()\<close> of the join handler
  has cleared the canvas, issued the background blit and drawn the player, and a further
  \<open>draw()\<close> does so again.
\<close>

theorem draw_before_background_loaded:
  "worldImage loading = Some \<lparr>src = ''world.jpg'', complete = False\<rparr>
   \<and> canvas_ops loading = loading_ops
   \<and> canvas_ops (draw loading) = canvas_ops loading @ loading_ops
   \<and> draw loading \<noteq> loading"
proof -
  have ops: "canvas_ops (draw loading) = canvas_ops loading @ loading_ops"
    by (rule draw_joined) (rule loading_fields)+
  have "canvas_ops (draw loading) \<noteq> canvas_ops loading"
    unfolding ops by (simp add: loading_ops_def)
  then have "draw loading \<noteq> loading" by auto
  then show ?thesis using ops loading_fields(1,9) by simp
qed

end
